theory Spec2Isabelle
  imports Complex_Main
begin

section \<open>JavaScript values\<close>

text \<open>
  The values that travel through the wallet module: request payload fields, JSON-RPC
  response bodies and the results handed back to the caller. A JavaScript \<open>number\<close>
  is a finite value (a rational: every finite double is one; \<open>-0\<close> is not told from
  \<open>0\<close>), \<open>NaN\<close> or one of the two infinities; an object is an association list from
  property names to values, read with \<open>map_of\<close>.
\<close>

datatype number = Finite rat | NaN | PosInfinity | NegInfinity

type_synonym bignumber = int

text \<open>\<open>!!n\<close> for a number: \<open>0\<close> and \<open>NaN\<close> are falsy.\<close>

fun truthy_number :: "number \<Rightarrow> bool" where
  "truthy_number (Finite q) = (q \<noteq> 0)"
| "truthy_number NaN = False"
| "truthy_number PosInfinity = True"
| "truthy_number NegInfinity = True"

datatype jsval =
    Undefined
  | Null
  | Bool bool
  | Num number
  | Str string
  | Arr "jsval list"
  | Obj "(string \<times> jsval) list"

text \<open>\<open>!!v\<close>: the falsy values are \<open>undefined\<close>, \<open>null\<close>, \<open>false\<close>, \<open>0\<close>,
  \<open>NaN\<close> and the empty string.\<close>

fun truthy :: "jsval \<Rightarrow> bool" where
  "truthy Undefined = False"
| "truthy Null = False"
| "truthy (Bool b) = b"
| "truthy (Num n) = truthy_number n"
| "truthy (Str s) = (s \<noteq> [])"
| "truthy (Arr xs) = True"
| "truthy (Obj kvs) = True"

text \<open>\<open>typeof v !== 'undefined'\<close>.\<close>

fun is_defined :: "jsval \<Rightarrow> bool" where
  "is_defined Undefined = False"
| "is_defined v = True"

text \<open>
  Property access \<open>v.k\<close>. Reading a property of \<open>undefined\<close> or \<open>null\<close> raises a
  TypeError (\<open>None\<close>); a property an object does not have reads as \<open>undefined\<close>; the
  primitives and arrays have no property of the names read here.
\<close>

fun get_prop :: "jsval \<Rightarrow> string \<Rightarrow> jsval option" where
  "get_prop Undefined k = None"
| "get_prop Null k = None"
| "get_prop (Obj kvs) k = (case map_of kvs k of None \<Rightarrow> Some Undefined | Some v \<Rightarrow> Some v)"
| "get_prop v k = Some Undefined"

text \<open>Truthiness of an optional string field: an absent field is \<open>undefined\<close>.\<close>

fun truthy_str :: "string option \<Rightarrow> bool" where
  "truthy_str None = False"
| "truthy_str (Some s) = (s \<noteq> [])"

section \<open>Outcomes of asynchronous operations\<close>

text \<open>
  \<open>new Error(m)\<close> carries the value \<open>m\<close> it was built from. An awaited promise
  resolves, rejects, or never settles; an \<open>async\<close> function returns, throws, or, when
  it awaits a promise that never settles, never returns (\<open>Pending\<close>).
\<close>

datatype js_error = Error jsval | TypeError

datatype 'a outcome = Returned 'a | Threw js_error | Pending

text \<open>
  Every operation is run against an environment of external collaborators (the chain
  client library, the HTTP client, the language runtime) and yields its outcome together
  with the trace of the calls it made to the chain and to the transaction builder, in
  the order it made them.
\<close>

section \<open>Handles of the chain client library\<close>

text \<open>
  The library's objects, as far as the module reads them: a provider bound to an RPC
  endpoint, a wallet (\<open>address\<close>, \<open>privateKey\<close>, \<open>mnemonic.phrase\<close> when it has a
  mnemonic, and the provider it is connected to), and a contract bound either to a
  signer or to a provider.
\<close>

datatype provider = JsonRpcProvider string

record wallet =
  w_address :: string
  w_privateKey :: string
  w_mnemonic :: "string option"
  w_provider :: "provider option"

datatype runner = BySigner wallet | ByProvider provider

record contract =
  c_address :: string
  c_abi :: "jsval list"
  c_runner :: runner

datatype abi_interface = Interface "jsval list"

text \<open>The second argument of \<open>parseUnits\<close> and \<open>formatUnits\<close>: a unit name such as
  \<open>'gwei'\<close>, or a number of decimals.\<close>

datatype unit_arg = UnitName string | UnitDecimals number

text \<open>
  What the module puts in a transaction's \<open>nonce\<close>: a number of the caller's, the
  promise \<open>getTransactionCount\<close> returned (the module never awaits it; the library
  does when it populates the transaction), or \<open>undefined\<close>.
\<close>

datatype nonce_arg = NonceNumber number | NoncePromise "js_error + number" | NonceUndefined

datatype gas_arg = GasNumber number | GasBig bignumber

text \<open>The overrides object of the token path's \<open>contract.transfer\<close> call.\<close>

record overrides =
  ov_gasPrice :: bignumber
  ov_nonce :: nonce_arg
  ov_gasLimit :: gas_arg

text \<open>The library's \<open>TransactionRequest\<close>, with the properties \<open>wallet.sendTransaction\<close>
  is given; a property the object literal does not set is \<open>None\<close>.\<close>

record tx_request =
  tr_to :: string
  tr_value :: bignumber
  tr_gasPrice :: bignumber
  tr_nonce :: nonce_arg
  tr_data :: string
  tr_gasLimit :: "gas_arg option"

text \<open>The raw signing path: the data given to \<open>Transaction.fromTxData\<close>, the chain
  parameters \<open>Common.custom\<close> built, and the unsigned transaction.\<close>

record tx_data =
  td_nonce :: jsval
  td_to :: string
  td_gasLimit :: jsval
  td_gasPrice :: string

record common =
  common_chainId :: "number option"

datatype tx = Transaction tx_data common

section \<open>The JSON-RPC envelope and the trace\<close>

record rpc_body =
  rpc_method :: string
  rpc_jsonrpc :: string
  rpc_id :: number
  rpc_params :: "jsval list"

text \<open>What \<open>axios.post(url, body)\<close> settles to: a response whose \<open>data\<close> is the
  parsed body, or a rejection (unreachable endpoint, non-2xx status).\<close>

datatype http_reply = PostResolved jsval | PostRejected

datatype event =
    GetGasPrice provider
  | GetTransactionCount provider string
  | GetBalance provider string
  | GetTransaction provider string
  | ContractRead contract string "jsval list"
  | EstimateGasTransfer contract string bignumber
  | ContractTransfer contract string bignumber overrides
  | SendTransaction wallet tx_request
  | Post string rpc_body
  | FromTxData tx_data common
  | Sign tx "string option"

type_synonym 'a io = "'a outcome \<times> event list"

definition ret :: "'a \<Rightarrow> 'a io" where
  "ret v = (Returned v, [])"

text \<open>A library computation that returns or throws and leaves no trace.\<close>

definition lib_call :: "js_error + 'a \<Rightarrow> 'a io" where
  "lib_call r = (case r of Inl e \<Rightarrow> (Threw e, []) | Inr v \<Rightarrow> (Returned v, []))"

text \<open>An awaited call that is recorded in the trace.\<close>

definition traced_call :: "event \<Rightarrow> js_error + 'a \<Rightarrow> 'a io" where
  "traced_call ev r = (case r of Inl e \<Rightarrow> (Threw e, [ev]) | Inr v \<Rightarrow> (Returned v, [ev]))"

text \<open>Sequencing: the rest runs only when the first part returned; a throw or a
  promise that never settles ends the operation there.\<close>

definition andThen :: "'a io \<Rightarrow> ('a \<Rightarrow> 'b io) \<Rightarrow> 'b io" where
  "andThen m f =
     (case m of
        (Returned a, t) \<Rightarrow> (case f a of (r, t') \<Rightarrow> (r, t @ t'))
      | (Threw e, t) \<Rightarrow> (Threw e, t)
      | (Pending, t) \<Rightarrow> (Pending, t))"

text \<open>\<open>x ? f(x) : d\<close> for an optional string and an optional number.\<close>

fun when_str :: "string option \<Rightarrow> (string \<Rightarrow> 'a) \<Rightarrow> 'a \<Rightarrow> 'a" where
  "when_str None f d = d"
| "when_str (Some s) f d = (if s \<noteq> [] then f s else d)"

fun when_num :: "number option \<Rightarrow> (number \<Rightarrow> 'a) \<Rightarrow> 'a \<Rightarrow> 'a" where
  "when_num None f d = d"
| "when_num (Some n) f d = (if truthy_number n then f n else d)"

section \<open>The environment\<close>

text \<open>
  The external collaborators, as functions: the default token ABI, the provider
  factory of utils/ethers, the ethers providers, wallets, contracts and unit
  conversions, the ethereumjs transaction builder, \<open>axios.post\<close>, and the runtime's
  \<open>parseFloat\<close>, \<open>parseInt\<close> and \<open>Number.prototype.toString\<close>. A call that can
  throw or reject returns \<open>Inl\<close> of the error. The two operations that draw
  randomness take it as their first argument. \<open>utils_hexlify_toUtf8Bytes\<close> is
  \<open>hexlify(toUtf8Bytes(s))\<close>; \<open>tx_sign_serialize_hex\<close> is
  \<open>tx.sign(Buffer.from(key, 'hex')).serialize().toString('hex')\<close>.
\<close>

record env =
  erc20Abi :: "jsval list"
  provider :: "string \<Rightarrow> js_error + provider"
  provider_getGasPrice :: "provider \<Rightarrow> js_error + bignumber"
  provider_getTransactionCount :: "provider \<Rightarrow> string \<Rightarrow> js_error + number"
  provider_getBalance :: "provider \<Rightarrow> string \<Rightarrow> js_error + bignumber"
  provider_getTransaction :: "provider \<Rightarrow> string \<Rightarrow> js_error + jsval"
  Wallet_new :: "string option \<Rightarrow> provider option \<Rightarrow> js_error + wallet"
  Wallet_createRandom :: "nat \<Rightarrow> string \<Rightarrow> js_error + wallet"
  Wallet_fromMnemonic :: "string \<Rightarrow> string \<Rightarrow> js_error + wallet"
  Wallet_fromEncryptedJson :: "string \<Rightarrow> string \<Rightarrow> js_error + wallet"
  wallet_encrypt :: "nat \<Rightarrow> wallet \<Rightarrow> string \<Rightarrow> js_error + string"
  wallet_sendTransaction :: "wallet \<Rightarrow> tx_request \<Rightarrow> js_error + jsval"
  Contract_new :: "string option \<Rightarrow> jsval list \<Rightarrow> runner \<Rightarrow> js_error + contract"
  contract_name :: "contract \<Rightarrow> js_error + string"
  contract_symbol :: "contract \<Rightarrow> js_error + string"
  contract_decimals :: "contract \<Rightarrow> js_error + number"
  contract_totalSupply :: "contract \<Rightarrow> js_error + bignumber"
  contract_balanceOf :: "contract \<Rightarrow> string \<Rightarrow> js_error + bignumber"
  contract_estimateGas_transfer :: "contract \<Rightarrow> string \<Rightarrow> bignumber \<Rightarrow> js_error + bignumber"
  contract_transfer :: "contract \<Rightarrow> string \<Rightarrow> bignumber \<Rightarrow> overrides \<Rightarrow> js_error + jsval"
  utils_parseUnits :: "string \<Rightarrow> unit_arg \<Rightarrow> js_error + bignumber"
  utils_parseEther :: "string \<Rightarrow> js_error + bignumber"
  utils_formatUnits :: "bignumber \<Rightarrow> unit_arg \<Rightarrow> js_error + string"
  utils_formatEther :: "bignumber \<Rightarrow> js_error + string"
  utils_hexlify_toUtf8Bytes :: "string \<Rightarrow> js_error + string"
  bignumber_toHexString :: "bignumber \<Rightarrow> string"
  Interface_new :: "jsval list \<Rightarrow> js_error + abi_interface"
  Interface_encodeFunctionData :: "abi_interface \<Rightarrow> string \<Rightarrow> jsval list \<Rightarrow> js_error + string"
  Common_custom :: "number option \<Rightarrow> js_error + common"
  Transaction_fromTxData :: "tx_data \<Rightarrow> common \<Rightarrow> js_error + tx"
  tx_sign_serialize_hex :: "tx \<Rightarrow> string option \<Rightarrow> js_error + string"
  axios_post :: "string \<Rightarrow> rpc_body \<Rightarrow> http_reply"
  number_toString :: "number \<Rightarrow> string"
  js_parseFloat :: "string \<Rightarrow> jsval"
  js_parseInt :: "string \<Rightarrow> jsval"

section \<open>The JSON-RPC transport (utils/rpc)\<close>

text \<open>
  \<open>settle data\<close> is the callback given to \<open>.then\<close>: it calls \<open>resolve\<close>, calls
  \<open>reject\<close>, or does neither. A TypeError raised inside the callback rejects the
  promise \<open>.then\<close> returned, which nobody holds: the promise \<open>request\<close> returned is
  left unsettled.
\<close>

definition settle :: "jsval \<Rightarrow> jsval outcome" where
  "settle data =
     (case get_prop data ''result'' of
        None \<Rightarrow> Pending
      | Some result \<Rightarrow>
          if is_defined result \<or> truthy result then Returned result
          else (case get_prop data ''error'' of
                  None \<Rightarrow> Pending
                | Some err \<Rightarrow>
                    if truthy err then
                      (case get_prop err ''message'' of
                         None \<Rightarrow> Pending
                       | Some message \<Rightarrow> Threw (Error (if truthy message then message else err)))
                    else Pending))"

text \<open>\<open>request\<close> has no handler for a rejected post: its promise never settles then.\<close>

definition request :: "env \<Rightarrow> string \<Rightarrow> rpc_body \<Rightarrow> jsval io" where
  "request env url body =
     (case axios_post env url body of
        PostRejected \<Rightarrow> (Pending, [Post url body])
      | PostResolved data \<Rightarrow> (settle data, [Post url body]))"

text \<open>Modelled from the spec: \<open>successResponse\<close> of utils/index, which is not among the
  sources: every successful response is the payload wrapped uniformly with
  \<open>success: true\<close>.\<close>

datatype 'a response = Success 'a

definition successResponse :: "'a \<Rightarrow> 'a response" where
  "successResponse payload = Success payload"

section \<open>Request payloads (utils/types)\<close>

record TransferPayload =
  tp_recipientAddress :: string
  tp_amount :: number
  tp_network :: string
  tp_rpcUrl :: string
  tp_privateKey :: string
  tp_gasPrice :: "string option"
  tp_tokenAddress :: "string option"
  tp_nonce :: "number option"
  tp_data :: "string option"
  tp_gasLimit :: "number option"

record BalancePayload =
  bp_address :: string
  bp_network :: string
  bp_rpcUrl :: string
  bp_tokenAddress :: "string option"

record GetAddressFromPrivateKeyPayload =
  ga_privateKey :: string
  ga_network :: string

record GetTransactionPayload =
  gt_rpcUrl :: string
  gt_hash :: string
  gt_network :: string

record GetEncryptedJsonFromPrivateKey =
  ge_password :: string
  ge_privateKey :: string
  ge_network :: string

record GetWalletFromEncryptedjsonPayload =
  gw_json :: string
  gw_password :: string
  gw_network :: string

record IGetTokenInfoPayload =
  ti_network :: string
  ti_rpcUrl :: string
  ti_address :: string
  ti_cluster :: "string option"

record ITokenInfo =
  info_name :: string
  info_symbol :: string
  info_decimals :: number
  info_address :: string
  info_totalSupply :: jsval

record ISmartContractCallPayload =
  sc_rpcUrl :: string
  sc_contractAddress :: string
  sc_method :: string
  sc_params :: "jsval list"
  sc_value :: "number option"
  sc_contractAbi :: "jsval list option"
  sc_gasPrice :: "string option"
  sc_gasLimit :: "number option"
  sc_nonce :: "number option"
  sc_privateKey :: "string option"
  sc_chainId :: "number option"

section \<open>The chain context resolver\<close>

record GetContract =
  gc_rpcUrl :: string
  gc_privateKey :: "string option"
  gc_contractAddress :: "string option"
  gc_abi :: "jsval list option"

record chain_context =
  ctx_contract :: "contract option"
  ctx_signer :: "wallet option"
  ctx_gasPrice :: bignumber
  ctx_gas :: bignumber
  ctx_nonce :: nonce_arg
  ctx_providerInstance :: provider

text \<open>
  \<open>abi || erc20Abi\<close>: an array is truthy, so the default applies to an absent ABI
  only. The nonce fetch is started, not awaited: the call is in the trace and the
  context holds its promise.
\<close>

definition getContract :: "env \<Rightarrow> GetContract \<Rightarrow> chain_context io" where
  "getContract env a =
     andThen (lib_call (provider env (gc_rpcUrl a))) (\<lambda>providerInstance.
     andThen (traced_call (GetGasPrice providerInstance) (provider_getGasPrice env providerInstance)) (\<lambda>gasPrice.
       let gas = 21000;
           contractAbi = (case gc_abi a of Some abi \<Rightarrow> abi | None \<Rightarrow> erc20Abi env)
       in
       if truthy_str (gc_privateKey a) \<and> truthy_str (gc_contractAddress a) then
         andThen (lib_call (Wallet_new env (gc_privateKey a) (Some providerInstance))) (\<lambda>signer.
         andThen (Returned (NoncePromise (provider_getTransactionCount env providerInstance (w_address signer))),
                  [GetTransactionCount providerInstance (w_address signer)]) (\<lambda>nonce.
         andThen (lib_call (Contract_new env (gc_contractAddress a) contractAbi (BySigner signer))) (\<lambda>contract.
           ret \<lparr>ctx_contract = Some contract, ctx_signer = Some signer, ctx_gasPrice = gasPrice,
                ctx_gas = gas, ctx_nonce = nonce, ctx_providerInstance = providerInstance\<rparr>)))
       else if truthy_str (gc_privateKey a) \<and> \<not> truthy_str (gc_contractAddress a) then
         andThen (lib_call (Wallet_new env (gc_privateKey a) (Some providerInstance))) (\<lambda>signer.
         andThen (Returned (NoncePromise (provider_getTransactionCount env providerInstance (w_address signer))),
                  [GetTransactionCount providerInstance (w_address signer)]) (\<lambda>nonce.
           ret \<lparr>ctx_contract = None, ctx_signer = Some signer, ctx_gasPrice = gasPrice,
                ctx_gas = gas, ctx_nonce = nonce, ctx_providerInstance = providerInstance\<rparr>))
       else if truthy_str (gc_contractAddress a) \<and> \<not> truthy_str (gc_privateKey a) then
         andThen (lib_call (Contract_new env (gc_contractAddress a) contractAbi (ByProvider providerInstance))) (\<lambda>contract.
           ret \<lparr>ctx_contract = Some contract, ctx_signer = None, ctx_gasPrice = gasPrice,
                ctx_gas = gas, ctx_nonce = NonceUndefined, ctx_providerInstance = providerInstance\<rparr>)
       else
         ret \<lparr>ctx_contract = None, ctx_signer = None, ctx_gasPrice = gasPrice,
              ctx_gas = gas, ctx_nonce = NonceUndefined, ctx_providerInstance = providerInstance\<rparr>))"

section \<open>Balance, account and lookup operations\<close>

definition getBalance :: "env \<Rightarrow> BalancePayload \<Rightarrow> jsval response io" where
  "getBalance env p =
     andThen (getContract env \<lparr>gc_rpcUrl = bp_rpcUrl p, gc_privateKey = None,
                               gc_contractAddress = bp_tokenAddress p, gc_abi = None\<rparr>) (\<lambda>ctx.
       case ctx_contract ctx of
         Some contract \<Rightarrow>
           andThen (traced_call (ContractRead contract ''decimals'' []) (contract_decimals env contract)) (\<lambda>decimals.
           andThen (traced_call (ContractRead contract ''balanceOf'' [Str (bp_address p)])
                      (contract_balanceOf env contract (bp_address p))) (\<lambda>balance.
           andThen (lib_call (utils_formatUnits env balance (UnitDecimals decimals))) (\<lambda>formatted.
             ret (successResponse (js_parseFloat env formatted)))))
       | None \<Rightarrow>
           andThen (traced_call (GetBalance (ctx_providerInstance ctx) (bp_address p))
                      (provider_getBalance env (ctx_providerInstance ctx) (bp_address p))) (\<lambda>balance.
           andThen (lib_call (utils_formatEther env balance)) (\<lambda>formatted.
             ret (successResponse (js_parseFloat env formatted)))))"

record wallet_info =
  wi_address :: string
  wi_privateKey :: string
  wi_mnemonic :: string

text \<open>\<open>wallet.mnemonic.phrase\<close>: a wallet without a mnemonic has \<open>mnemonic\<close> null, and
  reading its \<open>phrase\<close> raises a TypeError.\<close>

definition wallet_response :: "wallet \<Rightarrow> wallet_info response io" where
  "wallet_response wallet =
     (case w_mnemonic wallet of
        None \<Rightarrow> (Threw TypeError, [])
      | Some phrase \<Rightarrow>
          ret (successResponse \<lparr>wi_address = w_address wallet, wi_privateKey = w_privateKey wallet,
                                wi_mnemonic = phrase\<rparr>))"

definition default_path :: string where
  "default_path = ''m/44'' @ [CHR 0x27] @ ''/60'' @ [CHR 0x27] @ ''/0'' @ [CHR 0x27] @ ''/0/0''"

definition createWallet :: "env \<Rightarrow> nat \<Rightarrow> string option \<Rightarrow> wallet_info response io" where
  "createWallet env entropy derivationPath =
     (let path = when_str derivationPath (\<lambda>s. s) default_path in
      andThen (lib_call (Wallet_createRandom env entropy path)) wallet_response)"

definition getAddressFromPrivateKey :: "env \<Rightarrow> GetAddressFromPrivateKeyPayload \<Rightarrow> string response io" where
  "getAddressFromPrivateKey env args =
     andThen (lib_call (Wallet_new env (Some (ga_privateKey args)) None)) (\<lambda>wallet.
       ret (successResponse (w_address wallet)))"

definition generateWalletFromMnemonic :: "env \<Rightarrow> string \<Rightarrow> string option \<Rightarrow> wallet_info response io" where
  "generateWalletFromMnemonic env mnemonic derivationPath =
     (let path = when_str derivationPath (\<lambda>s. s) default_path in
      andThen (lib_call (Wallet_fromMnemonic env mnemonic path)) wallet_response)"

definition getTransaction :: "env \<Rightarrow> GetTransactionPayload \<Rightarrow> jsval response io" where
  "getTransaction env p =
     andThen (getContract env \<lparr>gc_rpcUrl = gt_rpcUrl p, gc_privateKey = None,
                               gc_contractAddress = None, gc_abi = None\<rparr>) (\<lambda>ctx.
     andThen (traced_call (GetTransaction (ctx_providerInstance ctx) (gt_hash p))
                (provider_getTransaction env (ctx_providerInstance ctx) (gt_hash p))) (\<lambda>tx.
       ret (successResponse tx)))"

definition getEncryptedJsonFromPrivateKey :: "env \<Rightarrow> nat \<Rightarrow> GetEncryptedJsonFromPrivateKey \<Rightarrow> string response io" where
  "getEncryptedJsonFromPrivateKey env entropy args =
     andThen (lib_call (Wallet_new env (Some (ge_privateKey args)) None)) (\<lambda>wallet.
     andThen (lib_call (wallet_encrypt env entropy wallet (ge_password args))) (\<lambda>json.
       ret (successResponse json)))"

definition getWalletFromEncryptedJson :: "env \<Rightarrow> GetWalletFromEncryptedjsonPayload \<Rightarrow> (string \<times> string) response io" where
  "getWalletFromEncryptedJson env args =
     andThen (lib_call (Wallet_fromEncryptedJson env (gw_json args) (gw_password args))) (\<lambda>wallet.
       ret (successResponse (w_privateKey wallet, w_address wallet)))"

text \<open>
  The four reads are started in the order written and awaited together; when several
  reject, the error of the first in that order is taken here. Without a contract
  binding the function returns \<open>undefined\<close> (\<open>None\<close>).
\<close>

definition getTokenInfo :: "env \<Rightarrow> IGetTokenInfoPayload \<Rightarrow> ITokenInfo response option io" where
  "getTokenInfo env p =
     andThen (getContract env \<lparr>gc_rpcUrl = ti_rpcUrl p, gc_privateKey = None,
                               gc_contractAddress = Some (ti_address p), gc_abi = None\<rparr>) (\<lambda>ctx.
       case ctx_contract ctx of
         Some contract \<Rightarrow>
           andThen (Returned (contract_name env contract, contract_symbol env contract,
                              contract_decimals env contract, contract_totalSupply env contract),
                    [ContractRead contract ''name'' [], ContractRead contract ''symbol'' [],
                     ContractRead contract ''decimals'' [], ContractRead contract ''totalSupply'' []])
             (\<lambda>(name_p, symbol_p, decimals_p, totalSupply_p).
           andThen (lib_call name_p) (\<lambda>name.
           andThen (lib_call symbol_p) (\<lambda>symbol.
           andThen (lib_call decimals_p) (\<lambda>decimals.
           andThen (lib_call totalSupply_p) (\<lambda>totalSupply.
           andThen (lib_call (utils_formatUnits env totalSupply (UnitDecimals decimals))) (\<lambda>formatted.
             ret (Some (successResponse
                    \<lparr>info_name = name, info_symbol = symbol, info_decimals = decimals,
                     info_address = c_address contract,
                     info_totalSupply = js_parseInt env formatted\<rparr>))))))))
       | None \<Rightarrow> ret None)"

section \<open>The transfer orchestrator\<close>

text \<open>The branch taken with a contract binding: a call of the token contract's
  \<open>transfer(recipient, amount)\<close>, with the overrides as its last argument.\<close>

definition transfer_token :: "env \<Rightarrow> TransferPayload \<Rightarrow> chain_context \<Rightarrow> contract \<Rightarrow> jsval response io" where
  "transfer_token env p ctx contract =
     andThen (traced_call (ContractRead contract ''decimals'' []) (contract_decimals env contract)) (\<lambda>decimals.
     andThen (lib_call (utils_parseUnits env (number_toString env (tp_amount p)) (UnitDecimals decimals))) (\<lambda>units.
     andThen (traced_call (EstimateGasTransfer contract (tp_recipientAddress p) units)
                (contract_estimateGas_transfer env contract (tp_recipientAddress p) units)) (\<lambda>estimatedGas.
     andThen (lib_call (utils_parseUnits env (number_toString env (tp_amount p)) (UnitDecimals decimals))) (\<lambda>amount.
     andThen (when_str (tp_gasPrice p)
                (\<lambda>g. lib_call (utils_parseUnits env g (UnitName ''gwei'')))
                (ret (ctx_gasPrice ctx))) (\<lambda>gasPrice.
       let ov = \<lparr>ov_gasPrice = gasPrice,
                 ov_nonce = when_num (tp_nonce p) NonceNumber (ctx_nonce ctx),
                 ov_gasLimit = when_num (tp_gasLimit p) GasNumber (GasBig estimatedGas)\<rparr>
       in
       andThen (traced_call (ContractTransfer contract (tp_recipientAddress p) amount ov)
                  (contract_transfer env contract (tp_recipientAddress p) amount ov)) (\<lambda>tx.
         ret (successResponse tx)))))))"

text \<open>The branch taken without one: \<open>wallet.sendTransaction\<close> with \<open>to\<close>, \<open>value\<close>,
  \<open>gasPrice\<close>, \<open>nonce\<close> and \<open>data\<close>.\<close>

definition transfer_native :: "env \<Rightarrow> TransferPayload \<Rightarrow> chain_context \<Rightarrow> wallet \<Rightarrow> jsval response io" where
  "transfer_native env p ctx wallet =
     andThen (lib_call (utils_parseEther env (number_toString env (tp_amount p)))) (\<lambda>value.
     andThen (when_str (tp_gasPrice p)
                (\<lambda>g. lib_call (utils_parseUnits env g (UnitName ''gwei'')))
                (ret (ctx_gasPrice ctx))) (\<lambda>gasPrice.
     andThen (when_str (tp_data p)
                (\<lambda>d. lib_call (utils_hexlify_toUtf8Bytes env d))
                (ret ''0x'')) (\<lambda>data.
       let req = \<lparr>tr_to = tp_recipientAddress p, tr_value = value, tr_gasPrice = gasPrice,
                  tr_nonce = when_num (tp_nonce p) NonceNumber (ctx_nonce ctx),
                  tr_data = data, tr_gasLimit = None\<rparr>
       in
       andThen (traced_call (SendTransaction wallet req) (wallet_sendTransaction env wallet req)) (\<lambda>tx.
         ret (successResponse tx)))))"

text \<open>The argument \<open>transfer\<close> gives to the context resolver.\<close>

definition transfer_context :: "TransferPayload \<Rightarrow> GetContract" where
  "transfer_context p = \<lparr>gc_rpcUrl = tp_rpcUrl p, gc_privateKey = Some (tp_privateKey p),
                          gc_contractAddress = tp_tokenAddress p, gc_abi = None\<rparr>"

definition transfer :: "env \<Rightarrow> TransferPayload \<Rightarrow> jsval response io" where
  "transfer env p =
     andThen (getContract env (transfer_context p)) (\<lambda>ctx.
     andThen (lib_call (Wallet_new env (Some (tp_privateKey p)) (Some (ctx_providerInstance ctx)))) (\<lambda>wallet.
       case ctx_contract ctx of
         Some contract \<Rightarrow> transfer_token env p ctx contract
       | None \<Rightarrow> transfer_native env p ctx wallet))"

section \<open>The contract call builder (raw signing path)\<close>

definition estimateGas_body :: "wallet \<Rightarrow> ISmartContractCallPayload \<Rightarrow> string \<Rightarrow> rpc_body" where
  "estimateGas_body wallet args data =
     \<lparr>rpc_method = ''eth_estimateGas'', rpc_jsonrpc = ''2.0'', rpc_id = Finite 1,
      rpc_params = [Obj [(''from'', Str (w_address wallet)),
                         (''to'', Str (sc_contractAddress args)),
                         (''data'', Str data)]]\<rparr>"

definition getTransactionCount_body :: "wallet \<Rightarrow> rpc_body" where
  "getTransactionCount_body wallet =
     \<lparr>rpc_method = ''eth_getTransactionCount'', rpc_jsonrpc = ''2.0'', rpc_id = Finite 1,
      rpc_params = [Str (w_address wallet), Str ''latest'']\<rparr>"

definition sendRawTransaction_body :: "string \<Rightarrow> rpc_body" where
  "sendRawTransaction_body serializedHex =
     \<lparr>rpc_method = ''eth_sendRawTransaction'', rpc_jsonrpc = ''2.0'', rpc_id = Finite 1,
      rpc_params = [Str serializedHex]\<rparr>"

text \<open>
  \<open>args.privateKey!\<close> and \<open>args.chainId!\<close> are compile-time assertions with no code
  behind them: an absent field reaches the library as \<open>undefined\<close>. The encoded call
  data goes into the gas estimate only; the transaction data given to
  \<open>Transaction.fromTxData\<close> has the four properties written here.
\<close>

definition smartContractSend :: "env \<Rightarrow> ISmartContractCallPayload \<Rightarrow> jsval response io" where
  "smartContractSend env args =
     andThen (lib_call (Interface_new env
                (case sc_contractAbi args of Some abi \<Rightarrow> abi | None \<Rightarrow> erc20Abi env))) (\<lambda>abiInterface.
     andThen (lib_call (Wallet_new env (sc_privateKey args) None)) (\<lambda>wallet.
     andThen (lib_call (Interface_encodeFunctionData env abiInterface (sc_method args) (sc_params args))) (\<lambda>data.
     andThen (request env (sc_rpcUrl args) (estimateGas_body wallet args data)) (\<lambda>estimateGas.
     andThen (request env (sc_rpcUrl args) (getTransactionCount_body wallet)) (\<lambda>nonce.
     andThen (lib_call (Common_custom env (sc_chainId args))) (\<lambda>common.
     andThen (lib_call (utils_parseUnits env (when_str (sc_gasPrice args) (\<lambda>g. g) ''100'') (UnitName ''gwei''))) (\<lambda>gasPrice.
       let txData = \<lparr>td_nonce = nonce, td_to = sc_contractAddress args,
                     td_gasLimit = when_num (sc_gasLimit args) Num estimateGas,
                     td_gasPrice = bignumber_toHexString env gasPrice\<rparr>
       in
       andThen (traced_call (FromTxData txData common) (Transaction_fromTxData env txData common)) (\<lambda>tx.
       andThen (traced_call (Sign tx (sc_privateKey args)) (tx_sign_serialize_hex env tx (sc_privateKey args))) (\<lambda>signedHex.
         let serializedHex = ''0x'' @ signedHex in
         andThen (request env (sc_rpcUrl args) (sendRawTransaction_body serializedHex)) (\<lambda>txHash.
           ret (successResponse txHash)))))))))))"

section \<open>Submissions in a trace\<close>

fun is_token_submit :: "event \<Rightarrow> bool" where
  "is_token_submit (ContractTransfer c r a ov) = True"
| "is_token_submit e = False"

fun is_native_submit :: "event \<Rightarrow> bool" where
  "is_native_submit (SendTransaction w r) = True"
| "is_native_submit e = False"

fun is_tx_build :: "event \<Rightarrow> bool" where
  "is_tx_build (FromTxData td c) = True"
| "is_tx_build e = False"



section \<open>A fake chain client\<close>

text \<open>A table-driven environment, as a test double would be, on which the operations
  are evaluated at concrete requests. Its transaction builder accepts chain parameters
  without a chain id and its signer refuses them.\<close>

definition fake_env :: env where
  "fake_env =
     \<lparr>erc20Abi = [Str ''erc20''],
      provider = (\<lambda>url. Inr (JsonRpcProvider url)),
      provider_getGasPrice = (\<lambda>p. Inr 20000000000),
      provider_getTransactionCount = (\<lambda>p a. Inr (Finite 12)),
      provider_getBalance = (\<lambda>p a. Inr 1000000000000000000),
      provider_getTransaction = (\<lambda>p h. Inr (Obj [(''hash'', Str h)])),
      Wallet_new = (\<lambda>k prov. case k of
                      None \<Rightarrow> Inl (Error (Str ''invalid private key''))
                    | Some s \<Rightarrow> if s = [] then Inl (Error (Str ''invalid private key''))
                               else Inr \<lparr>w_address = ''addr-'' @ s, w_privateKey = s,
                                        w_mnemonic = None, w_provider = prov\<rparr>),
      Wallet_createRandom = (\<lambda>n path. Inr \<lparr>w_address = ''addr-'' @ replicate n (CHR ''w'') @ path,
                                             w_privateKey = ''key-'' @ replicate n (CHR ''w'') @ path,
                                             w_mnemonic = Some (replicate n (CHR ''w'')), w_provider = None\<rparr>),
      Wallet_fromMnemonic = (\<lambda>m path. Inr \<lparr>w_address = ''addr-'' @ m @ path,
                                             w_privateKey = ''key-'' @ m @ path,
                                             w_mnemonic = Some m, w_provider = None\<rparr>),
      Wallet_fromEncryptedJson = (\<lambda>j pw. Inr \<lparr>w_address = ''addr-'' @ j, w_privateKey = j,
                                                w_mnemonic = None, w_provider = None\<rparr>),
      wallet_encrypt = (\<lambda>n w pw. Inr (w_privateKey w)),
      wallet_sendTransaction = (\<lambda>w r. Inr (Obj [(''hash'', Str ''0xnative'')])),
      Contract_new = (\<lambda>a abi r. case a of
                        None \<Rightarrow> Inl (Error (Str ''invalid contract address''))
                      | Some s \<Rightarrow> Inr \<lparr>c_address = s, c_abi = abi, c_runner = r\<rparr>),
      contract_name = (\<lambda>c. Inr ''Token''),
      contract_symbol = (\<lambda>c. Inr ''TKN''),
      contract_decimals = (\<lambda>c. Inr (Finite 18)),
      contract_totalSupply = (\<lambda>c. Inr 1000000000000000000000000),
      contract_balanceOf = (\<lambda>c a. Inr 1000000000000000000),
      contract_estimateGas_transfer = (\<lambda>c r a. Inr 60000),
      contract_transfer = (\<lambda>c r a ov. Inr (Obj [(''hash'', Str ''0xtoken'')])),
      utils_parseUnits = (\<lambda>s u. if s = ''5'' \<and> u = UnitName ''gwei'' then Inr 5000000000
                                  else if s = ''100'' \<and> u = UnitName ''gwei'' then Inr 100000000000
                                  else if s = ''1'' \<and> u = UnitDecimals (Finite 18) then Inr 1000000000000000000
                                  else Inl (Error (Str ''invalid decimal value''))),
      utils_parseEther = (\<lambda>s. if s = ''1'' then Inr 1000000000000000000
                               else Inl (Error (Str ''invalid decimal value''))),
      utils_formatUnits = (\<lambda>n u. Inr ''1000000.0''),
      utils_formatEther = (\<lambda>n. Inr ''1.0''),
      utils_hexlify_toUtf8Bytes = (\<lambda>s. Inr ''0x6869''),
      bignumber_toHexString = (\<lambda>n. if n = 100000000000 then ''0x174876e800''
                                     else if n = 5000000000 then ''0x012a05f200'' else ''0x00''),
      Interface_new = (\<lambda>abi. Inr (Interface abi)),
      Interface_encodeFunctionData = (\<lambda>i m ps. Inr ''0xa9059cbb''),
      Common_custom = (\<lambda>cid. Inr \<lparr>common_chainId = cid\<rparr>),
      Transaction_fromTxData = (\<lambda>d c. Inr (Transaction d c)),
      tx_sign_serialize_hex = (\<lambda>t k. case t of Transaction d c \<Rightarrow>
                                 (case common_chainId c of
                                    None \<Rightarrow> Inl (Error (Str ''chain id is not set''))
                                  | Some n \<Rightarrow> Inr ''f86c'')),
      axios_post = (\<lambda>url b.
                      if rpc_method b = ''eth_estimateGas'' then PostResolved (Obj [(''result'', Str ''0x5208'')])
                      else if rpc_method b = ''eth_getTransactionCount'' then PostResolved (Obj [(''result'', Str ''0x0'')])
                      else PostResolved (Obj [(''result'', Str ''0xhash'')])),
      number_toString = (\<lambda>q. if q = Finite 1 then ''1'' else ''0''),
      js_parseFloat = (\<lambda>s. if s = ''1.0'' then Num (Finite 1) else Num NaN),
      js_parseInt = (\<lambda>s. if s = ''1000000.0'' then Num (Finite 1000000) else Num NaN)\<rparr>"

definition native_payload :: TransferPayload where
  "native_payload =
     \<lparr>tp_recipientAddress = ''0xR'', tp_amount = Finite 1, tp_network = ''ethereum'',
      tp_rpcUrl = ''http://node'', tp_privateKey = ''k1'', tp_gasPrice = Some ''5'',
      tp_tokenAddress = None, tp_nonce = Some (Finite 7), tp_data = None, tp_gasLimit = Some (Finite 50000)\<rparr>"

definition token_payload :: TransferPayload where
  "token_payload = native_payload\<lparr>tp_tokenAddress := Some ''0xT''\<rparr>"

definition fake_provider :: provider where
  "fake_provider = JsonRpcProvider ''http://node''"

definition fake_signer :: wallet where
  "fake_signer = \<lparr>w_address = ''addr-k1'', w_privateKey = ''k1'', w_mnemonic = None,
                   w_provider = Some fake_provider\<rparr>"

definition fake_token :: contract where
  "fake_token = \<lparr>c_address = ''0xT'', c_abi = [Str ''erc20''], c_runner = BySigner fake_signer\<rparr>"

definition call_payload :: ISmartContractCallPayload where
  "call_payload =
     \<lparr>sc_rpcUrl = ''http://node'', sc_contractAddress = ''0xC'', sc_method = ''transfer'',
      sc_params = [Str ''0xR'', Num (Finite 1)], sc_value = None, sc_contractAbi = None,
      sc_gasPrice = None, sc_gasLimit = None, sc_nonce = None, sc_privateKey = Some ''k1'',
      sc_chainId = Some (Finite 1)\<rparr>"

definition override_call :: ISmartContractCallPayload where
  "override_call = call_payload\<lparr>sc_gasLimit := Some (Finite 90000), sc_gasPrice := Some ''5''\<rparr>"

text \<open>A node that answers every request with an error envelope.\<close>

definition reverting_env :: env where
  "reverting_env =
     fake_env\<lparr>axios_post := (\<lambda>url b.
        PostResolved (Obj [(''error'', Obj [(''message'', Str ''execution reverted'')])]))\<rparr>"




section \<open>Sequencing lemmas\<close>

lemma andThen_Returned [simp]: "andThen (Returned a, t) f = (fst (f a), t @ snd (f a))"
  by (simp add: andThen_def split: prod.splits)

lemma andThen_Threw [simp]: "andThen (Threw e, t) f = (Threw e, t)"
  by (simp add: andThen_def)

lemma andThen_Pending [simp]: "andThen (Pending, t) f = (Pending, t)"
  by (simp add: andThen_def)

lemma andThen_ret [simp]: "andThen (ret v) f = f v"
  by (simp add: ret_def)

lemma lib_call_Inr [simp]: "lib_call (Inr v) = (Returned v, [])"
  by (simp add: lib_call_def)

lemma lib_call_Inl [simp]: "lib_call (Inl e) = (Threw e, [])"
  by (simp add: lib_call_def)

lemma traced_call_Inr [simp]: "traced_call ev (Inr v) = (Returned v, [ev])"
  by (simp add: traced_call_def)

lemma traced_call_Inl [simp]: "traced_call ev (Inl e) = (Threw e, [ev])"
  by (simp add: traced_call_def)


lemma andThen_lib_call:
  "andThen (lib_call r) f = (case r of Inl e \<Rightarrow> (Threw e, []) | Inr v \<Rightarrow> f v)"
  by (cases r) simp_all

lemma andThen_traced_call:
  "andThen (traced_call ev r) f =
     (case r of Inl e \<Rightarrow> (Threw e, [ev]) | Inr v \<Rightarrow> (fst (f v), ev # snd (f v)))"
  by (cases r) simp_all

lemma andThen_request:
  "andThen (request env url body) f =
     (case fst (request env url body) of
        Returned v \<Rightarrow> (fst (f v), Post url body # snd (f v))
      | Threw e \<Rightarrow> (Threw e, [Post url body])
      | Pending \<Rightarrow> (Pending, [Post url body]))"
  by (simp add: request_def andThen_def split: http_reply.splits outcome.splits prod.splits)

lemma andThen_when_str:
  "andThen (when_str x g d) f = when_str x (\<lambda>s. andThen (g s) f) (andThen d f)"
  by (cases x) simp_all

lemmas io_simps = andThen_lib_call andThen_traced_call andThen_when_str

lemma getContract_no_submit:
  "filter is_token_submit (snd (getContract env a)) = [] \<and> filter is_native_submit (snd (getContract env a)) = []"
  by (simp add: getContract_def io_simps Let_def ret_def split: sum.splits)

lemma getContract_binding:
  "getContract env a = (Returned ctx, t) \<Longrightarrow> (ctx_contract ctx \<noteq> None) = truthy_str (gc_contractAddress a)"
  by (auto simp: getContract_def io_simps Let_def ret_def split: sum.splits if_splits)

lemma transfer_token_submits:
  "filter is_native_submit (snd (transfer_token env p ctx c)) = []
   \<and> length (filter is_token_submit (snd (transfer_token env p ctx c))) \<le> 1
   \<and> (fst (transfer_token env p ctx c) = Returned r \<longrightarrow> length (filter is_token_submit (snd (transfer_token env p ctx c))) = 1)"
  by (cases "tp_gasPrice p") (auto simp: transfer_token_def io_simps Let_def ret_def split: sum.splits)

lemma transfer_native_submits:
  "filter is_token_submit (snd (transfer_native env p ctx w)) = []
   \<and> length (filter is_native_submit (snd (transfer_native env p ctx w))) \<le> 1
   \<and> (fst (transfer_native env p ctx w) = Returned r \<longrightarrow> length (filter is_native_submit (snd (transfer_native env p ctx w))) = 1)"
  by (cases "tp_gasPrice p"; cases "tp_data p") (auto simp: transfer_native_def io_simps Let_def ret_def split: sum.splits)

lemma transfer_token_ignores_data:
  "transfer_token env (p\<lparr>tp_data := d\<rparr>) ctx c = transfer_token env p ctx c"
  by (simp add: transfer_token_def)


lemmas fake_defs = fake_env_def native_payload_def token_payload_def fake_provider_def
  fake_signer_def fake_token_def

lemmas transfer_defs = transfer_def transfer_context_def transfer_token_def transfer_native_def
  getContract_def


lemmas send_defs = smartContractSend_def request_def settle_def
  estimateGas_body_def getTransactionCount_body_def sendRawTransaction_body_def

section \<open>The transport\<close>

lemma settle_defined_result:
  "get_prop data ''result'' = Some r \<Longrightarrow> is_defined r \<Longrightarrow> settle data = Returned r"
  by (simp add: settle_def)

lemma settle_error:
  "get_prop data ''result'' = Some Undefined \<Longrightarrow> get_prop data ''error'' = Some err \<Longrightarrow>
   truthy err \<Longrightarrow> get_prop err ''message'' = Some message \<Longrightarrow>
   settle data = Threw (Error (if truthy message then message else err))"
  by (simp add: settle_def)

text \<open>
  C6. A response body whose \<open>result\<close> field is defined, in particular one of the falsy
  values \<open>0\<close>, \<open>NaN\<close>, \<open>''\<close>, \<open>false\<close> and \<open>null\<close>, makes \<open>request\<close> resolve
  with exactly that value: it neither rejects nor stays pending.
\<close>

theorem request_falsy_result_resolves:
  assumes "axios_post env url body = PostResolved data"
    and "get_prop data ''result'' = Some r"
    and "r \<noteq> Undefined"
  shows "request env url body = (Returned r, [Post url body])"
proof -
  from assms(3) have "is_defined r" by (cases r) simp_all
  with assms(1,2) show ?thesis
    by (simp add: request_def settle_defined_result)
qed

theorem request_falsy_result_resolves_witness:
  "request (fake_env\<lparr>axios_post := (\<lambda>u b. PostResolved (Obj [(''result'', Num (Finite 0))]))\<rparr>)
     ''http://node'' (sendRawTransaction_body ''0xf86c'')
   = (Returned (Num (Finite 0)), [Post ''http://node'' (sendRawTransaction_body ''0xf86c'')])"
  using request_falsy_result_resolves
    [of "fake_env\<lparr>axios_post := (\<lambda>u b. PostResolved (Obj [(''result'', Num (Finite 0))]))\<rparr>"
        "''http://node''" "sendRawTransaction_body ''0xf86c''" "Obj [(''result'', Num (Finite 0))]" "Num (Finite 0)"]
  by simp

text \<open>
  C7. At the empty response body \<open>{}\<close>, which has neither a \<open>result\<close> nor an
  \<open>error\<close>, neither \<open>resolve\<close> nor \<open>reject\<close> is called: the promise stays pending
  and is not a success with an \<open>undefined\<close> result.
\<close>

theorem request_empty_body_pending:
  "fst (request (fake_env\<lparr>axios_post := (\<lambda>u b. PostResolved (Obj []))\<rparr>)
          ''http://node'' (sendRawTransaction_body ''0xf86c'')) = Pending
   \<and> fst (request (fake_env\<lparr>axios_post := (\<lambda>u b. PostResolved (Obj []))\<rparr>)
          ''http://node'' (sendRawTransaction_body ''0xf86c'')) \<noteq> Returned Undefined"
  by (simp add: request_def settle_def)

text \<open>The same for every body whose \<open>result\<close> is undefined and whose \<open>error\<close> is
  falsy: no branch of the callback settles the promise.\<close>

lemma request_neither_pending:
  assumes "axios_post env url body = PostResolved data"
    and "get_prop data ''result'' = Some Undefined"
    and "get_prop data ''error'' = Some err"
    and "\<not> truthy err"
  shows "request env url body = (Pending, [Post url body])"
  using assms by (simp add: request_def settle_def)

section \<open>Transfers\<close>

lemma transfer_unfold:
  "transfer env p =
     (case getContract env (transfer_context p) of
        (Returned ctx, t) \<Rightarrow>
          (case Wallet_new env (Some (tp_privateKey p)) (Some (ctx_providerInstance ctx)) of
             Inl e \<Rightarrow> (Threw e, t)
           | Inr w \<Rightarrow>
               (case ctx_contract ctx of
                  Some c \<Rightarrow> (fst (transfer_token env p ctx c), t @ snd (transfer_token env p ctx c))
                | None \<Rightarrow> (fst (transfer_native env p ctx w), t @ snd (transfer_native env p ctx w))))
      | (Threw e, t) \<Rightarrow> (Threw e, t)
      | (Pending, t) \<Rightarrow> (Pending, t))"
  by (simp add: transfer_def andThen_def lib_call_def
           split: prod.splits outcome.splits sum.splits option.splits)

text \<open>The native branch never reads the payload's \<open>gasLimit\<close>.\<close>

lemma transfer_native_ignores_gasLimit:
  "transfer_native env (p\<lparr>tp_gasLimit := g\<rparr>) ctx w = transfer_native env p ctx w"
  by (simp add: transfer_native_def)

text \<open>
  C1. A native transfer whose caller supplies gas price 5 gwei, nonce 7 and gas limit
  50000, on a chain whose fetched gas price is 20 gwei and fetched nonce is 12: the
  request given to \<open>wallet.sendTransaction\<close> carries the caller's gas price and nonce
  and no gas limit at all. A token transfer whose caller supplies nonce 0: the overrides
  given to \<open>contract.transfer\<close> carry the promise of the fetched nonce (12), not 0.
\<close>

theorem transfer_overrides_dropped:
  "tp_gasLimit native_payload = Some (Finite 50000)
   \<and> snd (transfer fake_env native_payload) =
       [GetGasPrice fake_provider, GetTransactionCount fake_provider ''addr-k1'',
        SendTransaction fake_signer
          \<lparr>tr_to = ''0xR'', tr_value = 1000000000000000000, tr_gasPrice = 5000000000,
           tr_nonce = NonceNumber (Finite 7), tr_data = ''0x'', tr_gasLimit = None\<rparr>]
   \<and> tp_nonce (token_payload\<lparr>tp_nonce := Some (Finite 0)\<rparr>) = Some (Finite 0)
   \<and> snd (transfer fake_env (token_payload\<lparr>tp_nonce := Some (Finite 0)\<rparr>)) =
       [GetGasPrice fake_provider, GetTransactionCount fake_provider ''addr-k1'',
        ContractRead fake_token ''decimals'' [],
        EstimateGasTransfer fake_token ''0xR'' 1000000000000000000,
        ContractTransfer fake_token ''0xR'' 1000000000000000000
          \<lparr>ov_gasPrice = 5000000000, ov_nonce = NoncePromise (Inr (Finite 12)),
           ov_gasLimit = GasNumber (Finite 50000)\<rparr>]"
  by (simp add: transfer_defs fake_defs io_simps Let_def ret_def)

text \<open>
  A token address that is present and empty selects the native path: no token call
  is made and value is sent to the recipient.
\<close>

theorem transfer_empty_token_address_goes_native:
  "tp_tokenAddress (native_payload\<lparr>tp_tokenAddress := Some []\<rparr>) = Some []
   \<and> filter is_token_submit (snd (transfer fake_env (native_payload\<lparr>tp_tokenAddress := Some []\<rparr>))) = []
   \<and> filter is_native_submit (snd (transfer fake_env (native_payload\<lparr>tp_tokenAddress := Some []\<rparr>))) =
       [SendTransaction fake_signer
          \<lparr>tr_to = ''0xR'', tr_value = 1000000000000000000, tr_gasPrice = 5000000000,
           tr_nonce = NonceNumber (Finite 7), tr_data = ''0x'', tr_gasLimit = None\<rparr>]"
  by (simp add: transfer_defs fake_defs io_simps Let_def ret_def)

text \<open>
  C2. \<open>transfer\<close> makes at most one submission, and exactly one when it returns.
  With a present, non-empty \<open>tokenAddress\<close> the submission is the token contract's
  \<open>transfer\<close> call, no native transaction is sent, and the payload's \<open>data\<close> has no
  effect on the outcome or the trace. With \<open>tokenAddress\<close> absent or empty the
  submission is the native \<open>sendTransaction\<close> and no token call is made.
\<close>

theorem transfer_selects_one_path:
  "if truthy_str (tp_tokenAddress p)
   then filter is_native_submit (snd (transfer env p)) = []
      \<and> length (filter is_token_submit (snd (transfer env p))) \<le> 1
      \<and> (\<forall>r. fst (transfer env p) = Returned r \<longrightarrow> length (filter is_token_submit (snd (transfer env p))) = 1)
      \<and> transfer env (p\<lparr>tp_data := d\<rparr>) = transfer env p
   else filter is_token_submit (snd (transfer env p)) = []
      \<and> length (filter is_native_submit (snd (transfer env p))) \<le> 1
      \<and> (\<forall>r. fst (transfer env p) = Returned r \<longrightarrow> length (filter is_native_submit (snd (transfer env p))) = 1)"
proof -
  obtain out t where gc: "getContract env (transfer_context p) = (out, t)"
    by (cases "getContract env (transfer_context p)")
  have quiet: "filter is_token_submit t = []" "filter is_native_submit t = []"
    using getContract_no_submit [of env "transfer_context p"] gc by simp_all
  have ctx_same: "transfer_context (p\<lparr>tp_data := d\<rparr>) = transfer_context p"
    by (simp add: transfer_context_def)
  show ?thesis
  proof (cases out)
    case (Returned ctx)
    have binding: "(ctx_contract ctx \<noteq> None) = truthy_str (tp_tokenAddress p)"
      using getContract_binding [of env "transfer_context p" ctx t] gc Returned
      by (simp add: transfer_context_def)
    show ?thesis
    proof (cases "Wallet_new env (Some (tp_privateKey p)) (Some (ctx_providerInstance ctx))")
      case (Inl e)
      then show ?thesis
        using gc Returned quiet ctx_same
        by (simp add: transfer_unfold)
    next
      case (Inr w)
      show ?thesis
      proof (cases "ctx_contract ctx")
        case None
        then show ?thesis
          using gc Returned Inr quiet binding transfer_native_submits [of env p ctx w]
          by (simp add: transfer_unfold)
      next
        case (Some c)
        then show ?thesis
          using gc Returned Inr quiet binding ctx_same transfer_token_submits [of env p ctx c]
            transfer_token_ignores_data [where env = env and p = p and d = d and ctx = ctx and c = c]
          by (simp add: transfer_unfold)
      qed
    qed
  next
    case (Threw e)
    then show ?thesis
      using gc quiet ctx_same by (simp add: transfer_unfold)
  next
    case Pending
    then show ?thesis
      using gc quiet ctx_same by (simp add: transfer_unfold)
  qed
qed

theorem transfer_selects_one_path_witness:
  "filter is_native_submit (snd (transfer fake_env token_payload)) = []
   \<and> length (filter is_token_submit (snd (transfer fake_env token_payload))) = 1
   \<and> transfer fake_env (token_payload\<lparr>tp_data := Some ''hi''\<rparr>) = transfer fake_env token_payload
   \<and> filter is_token_submit (snd (transfer fake_env native_payload)) = []
   \<and> length (filter is_native_submit (snd (transfer fake_env native_payload))) = 1"
  using transfer_selects_one_path [of token_payload fake_env "Some ''hi''"]
    transfer_selects_one_path [of native_payload fake_env]
  by (simp add: transfer_defs fake_defs io_simps Let_def ret_def)

section \<open>Contract calls\<close>

text \<open>
  C3. Once the ABI, the wallet and the call data are built, an \<open>eth_estimateGas\<close>
  response without a \<open>result\<close> and with a truthy \<open>error\<close> makes
  \<open>smartContractSend\<close> throw an error built from \<open>error.message\<close> (from the error
  value itself when it has no message). The trace holds the estimate request alone: no
  nonce fetch, no transaction is built or signed, nothing is broadcast.
\<close>

theorem smartContractSend_estimate_error_aborts:
  assumes "Interface_new env (case sc_contractAbi args of Some abi \<Rightarrow> abi | None \<Rightarrow> erc20Abi env) = Inr abiInterface"
    and "Wallet_new env (sc_privateKey args) None = Inr wallet"
    and "Interface_encodeFunctionData env abiInterface (sc_method args) (sc_params args) = Inr data"
    and "axios_post env (sc_rpcUrl args) (estimateGas_body wallet args data) = PostResolved body"
    and "get_prop body ''result'' = Some Undefined"
    and "get_prop body ''error'' = Some err"
    and "truthy err"
    and "get_prop err ''message'' = Some message"
  shows "smartContractSend env args =
           (Threw (Error (if truthy message then message else err)),
            [Post (sc_rpcUrl args)
               \<lparr>rpc_method = ''eth_estimateGas'', rpc_jsonrpc = ''2.0'', rpc_id = Finite 1,
                rpc_params = [Obj [(''from'', Str (w_address wallet)),
                                   (''to'', Str (sc_contractAddress args)),
                                   (''data'', Str data)]]\<rparr>])"
proof -
  have "request env (sc_rpcUrl args) (estimateGas_body wallet args data) =
          (Threw (Error (if truthy message then message else err)),
           [Post (sc_rpcUrl args) (estimateGas_body wallet args data)])"
    using assms(4-8) by (simp add: request_def settle_error)
  with assms(1-3) show ?thesis
    by (simp add: smartContractSend_def io_simps estimateGas_body_def)
qed

theorem smartContractSend_estimate_error_aborts_witness:
  "smartContractSend reverting_env call_payload =
     (Threw (Error (Str ''execution reverted'')),
      [Post ''http://node''
         \<lparr>rpc_method = ''eth_estimateGas'', rpc_jsonrpc = ''2.0'', rpc_id = Finite 1,
          rpc_params = [Obj [(''from'', Str ''addr-k1''), (''to'', Str ''0xC''),
                             (''data'', Str ''0xa9059cbb'')]]\<rparr>])"
  using smartContractSend_estimate_error_aborts
    [of reverting_env call_payload "Interface [Str ''erc20'']"
        "\<lparr>w_address = ''addr-k1'', w_privateKey = ''k1'', w_mnemonic = None, w_provider = None\<rparr>"
        "''0xa9059cbb''"
        "Obj [(''error'', Obj [(''message'', Str ''execution reverted'')])]"
        "Obj [(''message'', Str ''execution reverted'')]"
        "Str ''execution reverted''"]
  by (simp add: reverting_env_def call_payload_def fake_env_def)

text \<open>
  A caller-supplied gas limit of \<open>0\<close> or \<open>NaN\<close> is not the gas limit of the
  transaction built: the estimate is. A caller-supplied empty gas price, which does not
  parse as gwei, is not its gas price: 100 gwei is.
\<close>

theorem smartContractSend_falsy_overrides_use_defaults:
  "sc_gasLimit (call_payload\<lparr>sc_gasLimit := Some (Finite 0)\<rparr>) = Some (Finite 0)
   \<and> filter is_tx_build (snd (smartContractSend fake_env (call_payload\<lparr>sc_gasLimit := Some (Finite 0)\<rparr>))) =
       [FromTxData
          \<lparr>td_nonce = Str ''0x0'', td_to = ''0xC'', td_gasLimit = Str ''0x5208'',
           td_gasPrice = ''0x174876e800''\<rparr>
          \<lparr>common_chainId = Some (Finite 1)\<rparr>]
   \<and> Str ''0x5208'' \<noteq> Num (Finite 0)
   \<and> sc_gasLimit (call_payload\<lparr>sc_gasLimit := Some NaN\<rparr>) = Some NaN
   \<and> filter is_tx_build (snd (smartContractSend fake_env (call_payload\<lparr>sc_gasLimit := Some NaN\<rparr>))) =
       [FromTxData
          \<lparr>td_nonce = Str ''0x0'', td_to = ''0xC'', td_gasLimit = Str ''0x5208'',
           td_gasPrice = ''0x174876e800''\<rparr>
          \<lparr>common_chainId = Some (Finite 1)\<rparr>]
   \<and> Str ''0x5208'' \<noteq> Num NaN
   \<and> sc_gasPrice (call_payload\<lparr>sc_gasPrice := Some []\<rparr>) = Some []
   \<and> utils_parseUnits fake_env [] (UnitName ''gwei'') = Inl (Error (Str ''invalid decimal value''))
   \<and> filter is_tx_build (snd (smartContractSend fake_env (call_payload\<lparr>sc_gasPrice := Some []\<rparr>))) =
       [FromTxData
          \<lparr>td_nonce = Str ''0x0'', td_to = ''0xC'', td_gasLimit = Str ''0x5208'',
           td_gasPrice = ''0x174876e800''\<rparr>
          \<lparr>common_chainId = Some (Finite 1)\<rparr>]"
  by (simp add: send_defs io_simps Let_def ret_def call_payload_def fake_env_def)

text \<open>
  C4. Whenever \<open>smartContractSend\<close> reaches \<open>Transaction.fromTxData\<close>, the data it
  passes has \<open>nonce\<close> equal to the result of \<open>eth_getTransactionCount(address,
  'latest')\<close>, \<open>to\<close> equal to \<open>contractAddress\<close>, \<open>gasLimit\<close> equal to the
  caller's \<open>gasLimit\<close> when that is supplied and truthy (neither \<open>0\<close> nor \<open>NaN\<close>)
  and to the result of \<open>eth_estimateGas\<close> otherwise, and \<open>gasPrice\<close> equal to the
  hex string of the caller's \<open>gasPrice\<close> (\<open>'100'\<close> when it is absent or empty)
  parsed as gwei; and the transaction is scoped to the request's \<open>chainId\<close>: the
  chain parameters passed are the ones \<open>Common.custom\<close> built for that chain id.
\<close>

theorem smartContractSend_built_transaction:
  assumes "FromTxData td c \<in> set (snd (smartContractSend env args))"
  shows "\<exists>abiInterface wallet data estimateGas nonce gasPrice.
           Interface_new env (case sc_contractAbi args of Some abi \<Rightarrow> abi | None \<Rightarrow> erc20Abi env) = Inr abiInterface
         \<and> Wallet_new env (sc_privateKey args) None = Inr wallet
         \<and> Interface_encodeFunctionData env abiInterface (sc_method args) (sc_params args) = Inr data
         \<and> fst (request env (sc_rpcUrl args)
                  \<lparr>rpc_method = ''eth_estimateGas'', rpc_jsonrpc = ''2.0'', rpc_id = Finite 1,
                   rpc_params = [Obj [(''from'', Str (w_address wallet)),
                                      (''to'', Str (sc_contractAddress args)),
                                      (''data'', Str data)]]\<rparr>) = Returned estimateGas
         \<and> fst (request env (sc_rpcUrl args)
                  \<lparr>rpc_method = ''eth_getTransactionCount'', rpc_jsonrpc = ''2.0'', rpc_id = Finite 1,
                   rpc_params = [Str (w_address wallet), Str ''latest'']\<rparr>) = Returned nonce
         \<and> utils_parseUnits env
              (case sc_gasPrice args of None \<Rightarrow> ''100'' | Some g \<Rightarrow> if g \<noteq> [] then g else ''100'')
              (UnitName ''gwei'') = Inr gasPrice
         \<and> td = \<lparr>td_nonce = nonce,
                  td_to = sc_contractAddress args,
                  td_gasLimit = (case sc_gasLimit args of
                                   None \<Rightarrow> estimateGas
                                 | Some g \<Rightarrow> if g \<noteq> Finite 0 \<and> g \<noteq> NaN then Num g else estimateGas),
                  td_gasPrice = bignumber_toHexString env gasPrice\<rparr>
         \<and> (\<forall>chainId. sc_chainId args = Some chainId \<longrightarrow> Common_custom env (Some chainId) = Inr c)"
proof -
  have gp: "when_str (sc_gasPrice args) (\<lambda>g. g) ''100'' =
              (case sc_gasPrice args of None \<Rightarrow> ''100'' | Some g \<Rightarrow> if g \<noteq> [] then g else ''100'')"
    by (cases "sc_gasPrice args") simp_all
  have tn: "\<And>g. truthy_number g = (g \<noteq> Finite 0 \<and> g \<noteq> NaN)"
    subgoal for g by (cases g) simp_all
    done
  have gl: "\<And>e. when_num (sc_gasLimit args) Num e =
              (case sc_gasLimit args of
                 None \<Rightarrow> e
               | Some g \<Rightarrow> if g \<noteq> Finite 0 \<and> g \<noteq> NaN then Num g else e)"
    by (cases "sc_gasLimit args") (simp_all add: tn)
  show ?thesis
    using assms unfolding smartContractSend_def gp gl
    by (auto simp: io_simps andThen_request Let_def ret_def
          estimateGas_body_def getTransactionCount_body_def
          split: sum.splits outcome.splits)
qed

theorem smartContractSend_built_transaction_witness:
  "FromTxData
      \<lparr>td_nonce = Str ''0x0'', td_to = ''0xC'', td_gasLimit = Num (Finite 90000),
       td_gasPrice = ''0x012a05f200''\<rparr>
      \<lparr>common_chainId = Some (Finite 1)\<rparr>
     \<in> set (snd (smartContractSend fake_env override_call))
   \<and> sc_chainId override_call = Some (Finite 1)
   \<and> Common_custom fake_env (Some (Finite 1)) = Inr \<lparr>common_chainId = Some (Finite 1)\<rparr>
   \<and> (\<exists>nonce gasPrice.
         utils_parseUnits fake_env ''5'' (UnitName ''gwei'') = Inr gasPrice
       \<and> \<lparr>td_nonce = Str ''0x0'', td_to = ''0xC'', td_gasLimit = Num (Finite 90000),
           td_gasPrice = ''0x012a05f200''\<rparr>
          = \<lparr>td_nonce = nonce, td_to = ''0xC'', td_gasLimit = Num (Finite 90000),
             td_gasPrice = bignumber_toHexString fake_env gasPrice\<rparr>)"
proof -
  have built: "FromTxData
      \<lparr>td_nonce = Str ''0x0'', td_to = ''0xC'', td_gasLimit = Num (Finite 90000),
       td_gasPrice = ''0x012a05f200''\<rparr>
      \<lparr>common_chainId = Some (Finite 1)\<rparr>
     \<in> set (snd (smartContractSend fake_env override_call))"
    by (simp add: send_defs io_simps Let_def ret_def override_call_def call_payload_def fake_env_def)
  have fields: "sc_chainId override_call = Some (Finite 1)" "sc_gasPrice override_call = Some ''5''"
    "sc_gasLimit override_call = Some (Finite 90000)" "sc_contractAddress override_call = ''0xC''"
    by (simp_all add: override_call_def call_payload_def)
  from smartContractSend_built_transaction [OF built] obtain nonce estimateGas gasPrice where
    "utils_parseUnits fake_env
       (case sc_gasPrice override_call of None \<Rightarrow> ''100'' | Some g \<Rightarrow> if g \<noteq> [] then g else ''100'')
       (UnitName ''gwei'') = Inr gasPrice"
    "\<lparr>td_nonce = Str ''0x0'', td_to = ''0xC'', td_gasLimit = Num (Finite 90000),
      td_gasPrice = ''0x012a05f200''\<rparr>
     = \<lparr>td_nonce = nonce, td_to = sc_contractAddress override_call,
        td_gasLimit = (case sc_gasLimit override_call of
                         None \<Rightarrow> estimateGas
                       | Some g \<Rightarrow> if g \<noteq> Finite 0 \<and> g \<noteq> NaN then Num g else estimateGas),
        td_gasPrice = bignumber_toHexString fake_env gasPrice\<rparr>"
    "\<forall>chainId. sc_chainId override_call = Some chainId \<longrightarrow>
       Common_custom fake_env (Some chainId) = Inr \<lparr>common_chainId = Some (Finite 1)\<rparr>"
    by blast
  then have "Common_custom fake_env (Some (Finite 1)) = Inr \<lparr>common_chainId = Some (Finite 1)\<rparr>
     \<and> (\<exists>nonce gasPrice.
         utils_parseUnits fake_env ''5'' (UnitName ''gwei'') = Inr gasPrice
       \<and> \<lparr>td_nonce = Str ''0x0'', td_to = ''0xC'', td_gasLimit = Num (Finite 90000),
           td_gasPrice = ''0x012a05f200''\<rparr>
          = \<lparr>td_nonce = nonce, td_to = ''0xC'', td_gasLimit = Num (Finite 90000),
             td_gasPrice = bignumber_toHexString fake_env gasPrice\<rparr>)"
    unfolding fields by (intro conjI exI [of _ nonce] exI [of _ gasPrice]) simp_all
  with built fields(1) show ?thesis by blast
qed



section \<open>Token information, accounts and the network field\<close>





text \<open>
  C9. The library's part of the round trip is a hypothesis: a wallet that
  \<open>Wallet.createRandom\<close> returns for a path has a mnemonic phrase from which
  \<open>Wallet.fromMnemonic\<close> derives, at the same path, a wallet with the same address and
  private key. Then for every account \<open>createWallet\<close> returns,
  \<open>generateWalletFromMnemonic\<close> on its phrase and the same optional derivation path
  (absent, empty or given: both sides apply the same default) returns an account with
  the same address and the same private key.
\<close>

theorem createWallet_roundtrip:
  assumes lib: "\<And>entropy path w. Wallet_createRandom env entropy path = Inr w \<Longrightarrow>
                  \<exists>phrase w'. w_mnemonic w = Some phrase
                    \<and> Wallet_fromMnemonic env phrase path = Inr w'
                    \<and> w_address w' = w_address w \<and> w_privateKey w' = w_privateKey w
                    \<and> w_mnemonic w' = Some phrase"
    and created: "createWallet env entropy derivationPath = (Returned (Success account), t)"
  shows "\<exists>recovered. fst (generateWalletFromMnemonic env (wi_mnemonic account) derivationPath) =
                        Returned (Success recovered)
           \<and> wi_address recovered = wi_address account
           \<and> wi_privateKey recovered = wi_privateKey account"
proof -
  define path where "path = when_str derivationPath (\<lambda>s. s) default_path"
  from created obtain w where w: "Wallet_createRandom env entropy path = Inr w"
    and resp: "wallet_response w = (Returned (Success account), t)"
    by (auto simp: createWallet_def path_def io_simps Let_def split: sum.splits)
  from lib [OF w] obtain phrase w' where
    ph: "w_mnemonic w = Some phrase" and
    fm: "Wallet_fromMnemonic env phrase path = Inr w'" and
    same: "w_address w' = w_address w" "w_privateKey w' = w_privateKey w" and
    ph': "w_mnemonic w' = Some phrase"
    by blast
  from resp ph have acc: "account = \<lparr>wi_address = w_address w, wi_privateKey = w_privateKey w,
                                      wi_mnemonic = phrase\<rparr>"
    by (simp add: wallet_response_def ret_def successResponse_def)
  have "fst (generateWalletFromMnemonic env (wi_mnemonic account) derivationPath) =
          Returned (Success \<lparr>wi_address = w_address w', wi_privateKey = w_privateKey w',
                             wi_mnemonic = phrase\<rparr>)"
    using fm ph' acc
    by (simp add: generateWalletFromMnemonic_def path_def [symmetric] io_simps
          wallet_response_def ret_def successResponse_def)
  with same acc show ?thesis by simp
qed

theorem createWallet_roundtrip_witness:
  "createWallet fake_env 3 None =
     (Returned (Success \<lparr>wi_address = ''addr-www'' @ default_path,
                         wi_privateKey = ''key-www'' @ default_path, wi_mnemonic = ''www''\<rparr>), [])
   \<and> (\<exists>recovered. fst (generateWalletFromMnemonic fake_env ''www'' None) = Returned (Success recovered)
         \<and> wi_address recovered = ''addr-www'' @ default_path
         \<and> wi_privateKey recovered = ''key-www'' @ default_path)"
proof -
  have created: "createWallet fake_env 3 None =
     (Returned (Success \<lparr>wi_address = ''addr-www'' @ default_path,
                         wi_privateKey = ''key-www'' @ default_path, wi_mnemonic = ''www''\<rparr>), [])"
    by (simp add: createWallet_def wallet_response_def io_simps ret_def successResponse_def
          fake_env_def numeral_3_eq_3)
  have lib: "\<And>entropy path w. Wallet_createRandom fake_env entropy path = Inr w \<Longrightarrow>
                  \<exists>phrase w'. w_mnemonic w = Some phrase
                    \<and> Wallet_fromMnemonic fake_env phrase path = Inr w'
                    \<and> w_address w' = w_address w \<and> w_privateKey w' = w_privateKey w
                    \<and> w_mnemonic w' = Some phrase"
    by (auto simp: fake_env_def)
  from createWallet_roundtrip [of fake_env, OF lib created] created show ?thesis
    by simp
qed

lemma transfer_token_network:
  "transfer_token env (p\<lparr>tp_network := n\<rparr>) ctx c = transfer_token env p ctx c"
  by (simp add: transfer_token_def)

lemma transfer_native_network:
  "transfer_native env (p\<lparr>tp_network := n\<rparr>) ctx w = transfer_native env p ctx w"
  by (simp add: transfer_native_def)

text \<open>
  C10. Every operation whose payload carries a \<open>network\<close> field returns the same
  outcome and makes the same calls whatever that field holds. (\<open>createWallet\<close>,
  \<open>generateWalletFromMnemonic\<close> and \<open>smartContractSend\<close> take no \<open>network\<close>.)
\<close>

theorem network_noninterference:
  "getBalance env (bp\<lparr>bp_network := n\<rparr>) = getBalance env bp
   \<and> transfer env (tp\<lparr>tp_network := n\<rparr>) = transfer env tp
   \<and> getAddressFromPrivateKey env (ga\<lparr>ga_network := n\<rparr>) = getAddressFromPrivateKey env ga
   \<and> getTransaction env (gt\<lparr>gt_network := n\<rparr>) = getTransaction env gt
   \<and> getEncryptedJsonFromPrivateKey env entropy (ge\<lparr>ge_network := n\<rparr>) =
       getEncryptedJsonFromPrivateKey env entropy ge
   \<and> getWalletFromEncryptedJson env (gw\<lparr>gw_network := n\<rparr>) = getWalletFromEncryptedJson env gw
   \<and> getTokenInfo env (ti\<lparr>ti_network := n\<rparr>) = getTokenInfo env ti"
proof -
  have balance: "getBalance env (bp\<lparr>bp_network := n\<rparr>) = getBalance env bp"
    by (simp add: getBalance_def cong: option.case_cong)
  have transfer: "transfer env (tp\<lparr>tp_network := n\<rparr>) = transfer env tp"
    by (simp add: transfer_def transfer_context_def transfer_token_network transfer_native_network
          cong: option.case_cong)
  have address: "getAddressFromPrivateKey env (ga\<lparr>ga_network := n\<rparr>) = getAddressFromPrivateKey env ga"
    by (simp add: getAddressFromPrivateKey_def)
  have lookup: "getTransaction env (gt\<lparr>gt_network := n\<rparr>) = getTransaction env gt"
    by (simp add: getTransaction_def)
  have encrypt: "getEncryptedJsonFromPrivateKey env entropy (ge\<lparr>ge_network := n\<rparr>) =
       getEncryptedJsonFromPrivateKey env entropy ge"
    by (simp add: getEncryptedJsonFromPrivateKey_def)
  have decrypt: "getWalletFromEncryptedJson env (gw\<lparr>gw_network := n\<rparr>) = getWalletFromEncryptedJson env gw"
    by (simp add: getWalletFromEncryptedJson_def)
  have info: "getTokenInfo env (ti\<lparr>ti_network := n\<rparr>) = getTokenInfo env ti"
    by (simp add: getTokenInfo_def cong: option.case_cong)
  from balance transfer address lookup encrypt decrypt info show ?thesis
    by blast
qed

theorem network_noninterference_witness:
  "transfer fake_env (token_payload\<lparr>tp_network := ''polygon''\<rparr>) = transfer fake_env token_payload
   \<and> getBalance fake_env \<lparr>bp_address = ''0xA'', bp_network = ''polygon'', bp_rpcUrl = ''http://node'',
                           bp_tokenAddress = None\<rparr>
     = getBalance fake_env \<lparr>bp_address = ''0xA'', bp_network = ''ethereum'', bp_rpcUrl = ''http://node'',
                            bp_tokenAddress = None\<rparr>"
  using network_noninterference
    [where env = fake_env and n = "''polygon''" and tp = token_payload
       and bp = "\<lparr>bp_address = ''0xA'', bp_network = ''ethereum'', bp_rpcUrl = ''http://node'',
                  bp_tokenAddress = None\<rparr>"]
  by simp

end
